theory Spec2Isabelle
  imports Main "HOL-Library.Sublist"
begin

section \<open>Python objects as the modules under fire/ see them\<close>

text \<open>
  The modules \<^verbatim>\<open>fire/value_types.py\<close> and \<^verbatim>\<open>fire/decorators.py\<close> look at a
  component only through the standard library (\<^verbatim>\<open>inspect.isroutine\<close>,
  \<^verbatim>\<open>inspect.isclass\<close>, \<^verbatim>\<open>isinstance\<close>, \<^verbatim>\<open>hasattr\<close>, \<^verbatim>\<open>getattr\<close>). A component is
  therefore a record of what these observations answer.
\<close>

text \<open>Exceptions are values; \<open>Inl\<close> of a sum is a raised exception.\<close>

datatype exn = AttributeError | TypeError | ValueError | IndexError | OtherException string

text \<open>
  What kind of object a component is, as the \<^verbatim>\<open>inspect\<close> module tells kinds apart:
  a Python function (\<^verbatim>\<open>def\<close>, \<^verbatim>\<open>lambda\<close>), a bound method, a built-in function or
  method, a method descriptor (such as \<^verbatim>\<open>str.upper\<close>), a class, or any other object
  (an instance; a callable object is one whose class defines \<^verbatim>\<open>__call__\<close>).
\<close>

datatype kind = Function | Method | Builtin | MethodDescriptor | Class | Instance

text \<open>
  The Python values an attribute may hold. \<open>PyObject contains\<close> is an object of any
  other class; \<open>contains\<close> is what a membership test on it does for a string:
  it raises (\<^verbatim>\<open>TypeError\<close> for an object without \<^verbatim>\<open>__contains__\<close>), or it is
  true exactly for the listed strings.
\<close>

datatype pyval =
    PyNone
  | PyBool bool
  | PyInt int
  | PyStr string
  | PyList "pyval list"
  | PyDict "(pyval \<times> pyval) list"
  | PyObject "exn + string list"

text \<open>Reading an attribute: it is absent, the read raises, or it holds a value.\<close>

datatype attr_result = Missing | Raises exn | Stored pyval

text \<open>
  One entry of \<^verbatim>\<open>inspect.classify_class_attrs\<close>: the class that defines the attribute,
  by name; \<^verbatim>\<open>object\<close> is the universal base class.
\<close>

record attribute =
  defining_class :: string

record component =
  kind :: kind
  isinstance_VALUE_TYPES :: bool
  hasattr_str :: bool
  GetClassAttrsDict :: "(string \<rightharpoonup> attribute) option"
  attrs :: "string \<Rightarrow> attr_result"

text \<open>
  \<open>isinstance_VALUE_TYPES c\<close> is \<^verbatim>\<open>isinstance(component, VALUE_TYPES)\<close>,
  \<open>hasattr_str c\<close> is \<^verbatim>\<open>hasattr(component, '__str__')\<close>, and
  \<open>GetClassAttrsDict c\<close> is \<^verbatim>\<open>inspectutils.GetClassAttrsDict(type(component))\<close>
  (\<open>None\<close> when it returns \<^verbatim>\<open>None\<close>); \<open>attrs c name\<close> is the outcome of reading
  the attribute \<open>name\<close> of the component.
\<close>

text \<open>\<^verbatim>\<open>inspect.isroutine\<close>: built-in, function, method or method descriptor.\<close>

definition inspect_isroutine :: "component \<Rightarrow> bool" where
  "inspect_isroutine c =
     (kind c = Builtin \<or> kind c = Function \<or> kind c = Method \<or> kind c = MethodDescriptor)"

definition inspect_isclass :: "component \<Rightarrow> bool" where
  "inspect_isclass c = (kind c = Class)"

text \<open>\<^verbatim>\<open>getattr(obj, name, default)\<close>: only \<^verbatim>\<open>AttributeError\<close> yields the default.\<close>

definition getattr_default :: "component \<Rightarrow> string \<Rightarrow> pyval \<Rightarrow> exn + pyval" where
  "getattr_default obj name dflt =
     (case attrs obj name of
        Missing \<Rightarrow> Inr dflt
      | Raises e \<Rightarrow> if e = AttributeError then Inr dflt else Inl e
      | Stored v \<Rightarrow> Inr v)"

text \<open>
  The call \<^verbatim>\<open>inspect.isroutine(obj)\<close> as an evaluation that may raise. It is
  \<^verbatim>\<open>isbuiltin(obj) or isfunction(obj) or ismethod(obj) or ismethoddescriptor(obj)\<close>, each
  an \<^verbatim>\<open>isinstance\<close> test. A built-in settles the first test by its type. For any
  other object a test that its type does not settle reads the attribute \<^verbatim>\<open>__class__\<close>
  of the object, and an exception of that read other than \<^verbatim>\<open>AttributeError\<close> escapes.
  When the call returns, its answer is \<open>inspect_isroutine\<close>.
\<close>

definition isroutine_call :: "component \<Rightarrow> exn + bool" where
  "isroutine_call obj =
     (if kind obj = Builtin then Inr True
      else case attrs obj ''__class__'' of
             Missing \<Rightarrow> Inr (inspect_isroutine obj)
           | Raises e \<Rightarrow> if e = AttributeError then Inr (inspect_isroutine obj) else Inl e
           | Stored v \<Rightarrow> Inr (inspect_isroutine obj))"

text \<open>\<^verbatim>\<open>needle in haystack\<close> for a string needle occurring somewhere in a string.\<close>

fun str_contains :: "string \<Rightarrow> string \<Rightarrow> bool" where
  "str_contains [] needle = (needle = [])"
| "str_contains (c # cs) needle = (prefix needle (c # cs) \<or> str_contains cs needle)"

text \<open>
  \<^verbatim>\<open>key in container\<close> for a string key: a dictionary tests its keys, a list its
  elements, a string its substrings; \<^verbatim>\<open>None\<close>, booleans and integers raise
  \<^verbatim>\<open>TypeError\<close>; another object answers through \<^verbatim>\<open>__contains__\<close>.
\<close>

fun py_in :: "string \<Rightarrow> pyval \<Rightarrow> exn + bool" where
  "py_in key PyNone = Inl TypeError"
| "py_in key (PyBool b) = Inl TypeError"
| "py_in key (PyInt i) = Inl TypeError"
| "py_in key (PyStr s) = Inr (str_contains s key)"
| "py_in key (PyList xs) = Inr (PyStr key \<in> set xs)"
| "py_in key (PyDict kvs) = Inr (PyStr key \<in> set (map fst kvs))"
| "py_in key (PyObject contains) =
     (case contains of Inl e \<Rightarrow> Inl e | Inr names \<Rightarrow> Inr (key \<in> set names))"

section \<open>fire/value\_types.py\<close>

definition HasCustomStr :: "component \<Rightarrow> bool" where
  "HasCustomStr c =
     (if hasattr_str c then
        (let class_attrs = (case GetClassAttrsDict c of None \<Rightarrow> Map.empty | Some d \<Rightarrow> d);
             str_attr = class_attrs ''__str__''
         in case str_attr of
              None \<Rightarrow> False
            | Some a \<Rightarrow> defining_class a \<noteq> ''object'')
      else False)"

definition IsCommand :: "component \<Rightarrow> bool" where
  "IsCommand c = (inspect_isroutine c \<or> inspect_isclass c)"

definition IsValue :: "component \<Rightarrow> bool" where
  "IsValue c = (isinstance_VALUE_TYPES c \<or> HasCustomStr c)"

definition IsGroup :: "component \<Rightarrow> bool" where
  "IsGroup c = (\<not> IsCommand c \<and> \<not> IsValue c)"

section \<open>fire/decorators.py\<close>

definition FIRE_METADATA :: string where
  "FIRE_METADATA = ''FIRE_METADATA''"

definition FIRE_PARSE_FNS :: string where
  "FIRE_PARSE_FNS = ''FIRE_PARSE_FNS''"

definition ACCEPTS_POSITIONAL_ARGS :: string where
  "ACCEPTS_POSITIONAL_ARGS = ''ACCEPTS_POSITIONAL_ARGS''"

text \<open>
  The default dictionary of \<^verbatim>\<open>GetMetadata\<close> for the answer \<open>routine\<close> of
  \<^verbatim>\<open>inspect.isroutine(fn)\<close>, and for a component on which that call returns.
\<close>

definition metadata_for :: "bool \<Rightarrow> pyval" where
  "metadata_for routine = PyDict [(PyStr ACCEPTS_POSITIONAL_ARGS, PyBool routine)]"

definition default_metadata :: "component \<Rightarrow> pyval" where
  "default_metadata fn = metadata_for (inspect_isroutine fn)"

text \<open>
  \<^verbatim>\<open>GetMetadata\<close>. The default is built before the \<^verbatim>\<open>try\<close>, so an exception of
  \<^verbatim>\<open>inspect.isroutine(fn)\<close> escapes. Inside the \<^verbatim>\<open>try\<close>, the bare \<^verbatim>\<open>except\<close> turns
  an exception of the attribute read or of the membership test into the default.
\<close>

definition GetMetadata :: "component \<Rightarrow> exn + pyval" where
  "GetMetadata fn =
     (case isroutine_call fn of
        Inl e \<Rightarrow> Inl e
      | Inr routine \<Rightarrow>
          (let dflt = metadata_for routine in
           case getattr_default fn FIRE_METADATA dflt of
             Inl e \<Rightarrow> Inr dflt
           | Inr metadata \<Rightarrow>
               (case py_in ACCEPTS_POSITIONAL_ARGS metadata of
                  Inl e \<Rightarrow> Inr dflt
                | Inr found \<Rightarrow> if found then Inr metadata else Inr dflt)))"

text \<open>A value is a dictionary that has the given string among its keys.\<close>

fun is_dict_with_key :: "string \<Rightarrow> pyval \<Rightarrow> bool" where
  "is_dict_with_key key (PyDict kvs) = (PyStr key \<in> set (map fst kvs))"
| "is_dict_with_key key v = False"

fun is_dict :: "pyval \<Rightarrow> bool" where
  "is_dict (PyDict kvs) = True"
| "is_dict v = False"


text \<open>No attribute at all: every read is an \<^verbatim>\<open>AttributeError\<close>.\<close>

definition no_attrs :: "string \<Rightarrow> attr_result" where
  "no_attrs name = Missing"

text \<open>
  The attribute reads of an object whose \<^verbatim>\<open>__getattribute__\<close> raises
  \<^verbatim>\<open>RuntimeError\<close>: every read raises.
\<close>

definition raising_attrs :: "string \<Rightarrow> attr_result" where
  "raising_attrs name = Raises (OtherException ''RuntimeError'')"

text \<open>
  What \<^verbatim>\<open>GetMetadata\<close> reads for the attribute: whether the membership test of its
  \<^verbatim>\<open>try\<close> block comes out true on a stored value, and whether a stored value, if
  there is one, is a dictionary.
\<close>

definition stored_passes_test :: "component \<Rightarrow> bool" where
  "stored_passes_test fn =
     (case attrs fn FIRE_METADATA of
        Stored m \<Rightarrow> py_in ACCEPTS_POSITIONAL_ARGS m = Inr True
      | Missing \<Rightarrow> False
      | Raises e \<Rightarrow> False)"

definition stored_is_dict_if_any :: "component \<Rightarrow> bool" where
  "stored_is_dict_if_any fn =
     (case attrs fn FIRE_METADATA of
        Stored m \<Rightarrow> is_dict m
      | Missing \<Rightarrow> True
      | Raises e \<Rightarrow> True)"

section \<open>fire/parser.py: separating the flag arguments\<close>

text \<open>
  The assertions of \<^verbatim>\<open>ParserTest.testSeparateFlagArgs\<close> (\<^verbatim>\<open>fire/parser_test.py\<close>), as a
  predicate on an implementation of \<^verbatim>\<open>SeparateFlagArgs\<close>.
\<close>

definition testSeparateFlagArgs :: "(string list \<Rightarrow> string list \<times> string list) \<Rightarrow> bool" where
  "testSeparateFlagArgs f =
     (f [] = ([], [])
      \<and> f [''a'', ''b''] = ([''a'', ''b''], [])
      \<and> f [''a'', ''b'', ''--''] = ([''a'', ''b''], [])
      \<and> f [''a'', ''b'', ''--'', ''c''] = ([''a'', ''b''], [''c''])
      \<and> f [''--''] = ([], [])
      \<and> f [''--'', ''c'', ''d''] = ([], [''c'', ''d''])
      \<and> f [''a'', ''b'', ''--'', ''c'', ''d''] = ([''a'', ''b''], [''c'', ''d''])
      \<and> f [''a'', ''b'', ''--'', ''c'', ''d'', ''--''] = ([''a'', ''b'', ''--'', ''c'', ''d''], [])
      \<and> f [''a'', ''b'', ''--'', ''c'', ''--'', ''d''] = ([''a'', ''b'', ''--'', ''c''], [''d'']))"


text \<open>\<^verbatim>\<open>list.index\<close> on a list that holds the element: the first position.\<close>

definition index_of :: "'a list \<Rightarrow> 'a \<Rightarrow> nat" where
  "index_of xs x = length (takeWhile (\<lambda>y. y \<noteq> x) xs)"



text \<open>
  A split at the last occurrence of \<^verbatim>\<open>--\<close>. It is one function that passes the
  assertions of the test; the sources do not tell whether the program's
  \<^verbatim>\<open>SeparateFlagArgs\<close> is this function on other inputs.
\<close>

definition SplitOnLastDashes :: "string list \<Rightarrow> string list \<times> string list" where
  "SplitOnLastDashes tokens =
     (if ''--'' \<in> set tokens
      then (let separator_index = length tokens - 1 - index_of (rev tokens) ''--''
            in (take separator_index tokens, drop (separator_index + 1) tokens))
      else (tokens, []))"

section \<open>Example components\<close>

text \<open>An instance of a plain class, whose \<^verbatim>\<open>__str__\<close> is the one of \<^verbatim>\<open>object\<close>.\<close>

definition plain_object :: component where
  "plain_object =
     \<lparr>kind = Instance, isinstance_VALUE_TYPES = False, hasattr_str = True,
      GetClassAttrsDict = Some [''__str__'' \<mapsto> \<lparr>defining_class = ''object''\<rparr>],
      attrs = no_attrs\<rparr>"

text \<open>An object whose \<^verbatim>\<open>FIRE_METADATA\<close> attribute holds a list with the key in it.\<close>

definition list_metadata_object :: component where
  "list_metadata_object =
     \<lparr>kind = Instance, isinstance_VALUE_TYPES = False, hasattr_str = True,
      GetClassAttrsDict = None,
      attrs = no_attrs(FIRE_METADATA := Stored (PyList [PyStr ACCEPTS_POSITIONAL_ARGS]))\<rparr>"

text \<open>
  An instance of a class whose \<^verbatim>\<open>__getattribute__\<close> raises \<^verbatim>\<open>RuntimeError\<close>:
  \<^verbatim>\<open>hasattr\<close> raises on it too, so the field \<open>hasattr_str\<close> plays no part.
\<close>

definition hostile_object :: component where
  "hostile_object =
     \<lparr>kind = Instance, isinstance_VALUE_TYPES = False, hasattr_str = False,
      GetClassAttrsDict = None, attrs = raising_attrs\<rparr>"

section \<open>Classification of components\<close>

lemma inspect_isroutine_kind:
  "inspect_isroutine c = (kind c \<in> {Function, Method, Builtin, MethodDescriptor})"
  by (auto simp: inspect_isroutine_def)

lemma IsCommand_kind:
  "IsCommand c = (kind c \<in> {Function, Method, Builtin, MethodDescriptor, Class})"
  by (auto simp: IsCommand_def inspect_isroutine_def inspect_isclass_def)

text \<open>
  C6: for every component, \<open>IsCommand\<close> holds exactly when the component is a routine
  (function, method, built-in, method descriptor) or a class, \<open>IsGroup\<close> holds exactly
  when neither \<open>IsCommand\<close> nor \<open>IsValue\<close> holds, and so no component is both a group
  and a command, or both a group and a value.
\<close>

theorem classification_exclusive:
  "IsCommand c = (inspect_isroutine c \<or> inspect_isclass c)
   \<and> IsCommand c = (kind c \<in> {Function, Method, Builtin, MethodDescriptor, Class})
   \<and> IsGroup c = (\<not> IsCommand c \<and> \<not> IsValue c)
   \<and> \<not> (IsGroup c \<and> IsCommand c)
   \<and> \<not> (IsGroup c \<and> IsValue c)"
  using IsCommand_kind [of c] by (auto simp: IsCommand_def IsGroup_def)

theorem classification_exclusive_witness:
  "IsGroup plain_object \<and> \<not> IsCommand plain_object \<and> \<not> IsValue plain_object"
  using classification_exclusive [of plain_object]
  by (simp add: plain_object_def IsValue_def HasCustomStr_def inspect_isroutine_def
      inspect_isclass_def)

section \<open>Metadata of a callable\<close>

lemma isroutine_call_answer:
  "isroutine_call fn = Inr routine \<Longrightarrow> routine = inspect_isroutine fn"
  by (auto simp: isroutine_call_def inspect_isroutine_def
      split: if_splits attr_result.splits)

text \<open>An exception of \<^verbatim>\<open>inspect.isroutine(fn)\<close> is the outcome of \<open>GetMetadata\<close>.\<close>

lemma GetMetadata_raises:
  "isroutine_call fn = Inl e \<Longrightarrow> GetMetadata fn = Inl e"
  by (simp add: GetMetadata_def)

text \<open>
  Where \<^verbatim>\<open>inspect.isroutine(fn)\<close> returns, so does \<open>GetMetadata\<close>: with the stored
  value if the membership test on it is true, with the default in every other case.
\<close>

lemma GetMetadata_cases:
  assumes "isroutine_call fn = Inr routine"
  shows "GetMetadata fn =
     Inr (case attrs fn FIRE_METADATA of
            Stored m \<Rightarrow>
              if py_in ACCEPTS_POSITIONAL_ARGS m = Inr True then m else default_metadata fn
          | Missing \<Rightarrow> default_metadata fn
          | Raises e \<Rightarrow> default_metadata fn)"
  using assms isroutine_call_answer [OF assms]
  by (auto simp: GetMetadata_def getattr_default_def Let_def default_metadata_def
      metadata_for_def split: attr_result.splits sum.splits)

lemma default_metadata_has_key:
  "is_dict_with_key ACCEPTS_POSITIONAL_ARGS (default_metadata fn)"
  by (simp add: default_metadata_def metadata_for_def)

lemma is_dict_py_in:
  "is_dict m \<Longrightarrow> py_in k m = Inr True \<Longrightarrow> is_dict_with_key k m"
  by (cases m) auto

lemma GetMetadata_undecorated:
  "isroutine_call fn = Inr routine \<Longrightarrow> attrs fn FIRE_METADATA = Missing \<Longrightarrow>
     GetMetadata fn = Inr (PyDict [(PyStr ACCEPTS_POSITIONAL_ARGS, PyBool (inspect_isroutine fn))])"
  by (simp add: GetMetadata_cases default_metadata_def metadata_for_def)

text \<open>
  The fallback of \<open>GetMetadata\<close>, where \<^verbatim>\<open>inspect.isroutine(fn)\<close> returns: the result
  is the default whenever the attribute is missing, unreadable, or a value on which the
  membership test is false or raises; it is a dictionary with the key whenever the
  stored value, if there is one, is a dictionary.
\<close>

lemma GetMetadata_fallback:
  assumes "isroutine_call fn = Inr routine"
  shows "\<exists>v. GetMetadata fn = Inr v
       \<and> (v = default_metadata fn \<or> attrs fn FIRE_METADATA = Stored v)
       \<and> (\<not> stored_passes_test fn \<longrightarrow> v = default_metadata fn)
       \<and> (stored_is_dict_if_any fn \<longrightarrow> is_dict_with_key ACCEPTS_POSITIONAL_ARGS v)"
  by (auto simp: GetMetadata_cases [OF assms] stored_passes_test_def
      stored_is_dict_if_any_def default_metadata_has_key is_dict_py_in
      split: attr_result.splits)

text \<open>
  C10 says that \<open>GetMetadata\<close> never raises, for objects on which attribute access
  raises too, and always returns a dictionary that contains the key
  \<^verbatim>\<open>ACCEPTS_POSITIONAL_ARGS\<close>. The code does neither. On an object whose attribute reads
  raise \<^verbatim>\<open>RuntimeError\<close>, the call \<^verbatim>\<open>inspect.isroutine(fn)\<close> before the \<^verbatim>\<open>try\<close>
  raises, and the exception escapes. On an object whose attribute holds a list with the
  key in it, the list passes the membership test and is returned as it is.
\<close>

theorem GetMetadata_raises_and_returns_list:
  "GetMetadata hostile_object = Inl (OtherException ''RuntimeError'')
   \<and> GetMetadata list_metadata_object = Inr (PyList [PyStr ACCEPTS_POSITIONAL_ARGS])
   \<and> \<not> is_dict (PyList [PyStr ACCEPTS_POSITIONAL_ARGS])"
  by (simp add: GetMetadata_def isroutine_call_def hostile_object_def raising_attrs_def
      list_metadata_object_def no_attrs_def getattr_default_def metadata_for_def
      inspect_isroutine_def FIRE_METADATA_def)

section \<open>Separating the flag arguments\<close>

lemma SplitOnLastDashes_passes_test: "testSeparateFlagArgs SplitOnLastDashes"
  by (simp add: testSeparateFlagArgs_def SplitOnLastDashes_def index_of_def)





end
